theory Spec2Isabelle
  imports Complex_Main "HOL-Library.Log_Nat"
begin

section \<open>JavaScript strings\<close>

text \<open>
  A JavaScript string is a sequence of UTF-16 code units. The embedding uses \<^typ>\<open>string\<close>;
  a \<^typ>\<open>char\<close> stands for the code unit of the same number, so the texts covered are those
  whose code units are below 256 (ASCII and Latin-1). All indicator keywords are ASCII.
\<close>

definition isWordChar :: "char \<Rightarrow> bool" where
  \<comment> \<open>the regular expression class \<open>\w\<close>: \<open>[A-Za-z0-9_]\<close>\<close>
  "isWordChar c = (let n = (of_char c :: nat) in
     (48 \<le> n \<and> n \<le> 57) \<or> (65 \<le> n \<and> n \<le> 90) \<or> n = 95 \<or> (97 \<le> n \<and> n \<le> 122))"

definition isWhiteSpace :: "char \<Rightarrow> bool" where
  \<comment> \<open>the class \<open>\s\<close>, which is also what \<open>trim()\<close> strips: TAB, LF, VT, FF, CR, SP, NBSP\<close>
  "isWhiteSpace c = (let n = (of_char c :: nat) in (9 \<le> n \<and> n \<le> 13) \<or> n = 32 \<or> n = 160)"

definition lowerChar :: "char \<Rightarrow> char" where
  \<comment> \<open>\<open>toLowerCase()\<close> on one code unit below 256: A-Z, and the Latin-1 capitals but the
      multiplication sign\<close>
  "lowerChar c = (let n = (of_char c :: nat) in
     if (65 \<le> n \<and> n \<le> 90) \<or> (192 \<le> n \<and> n \<le> 222 \<and> n \<noteq> 215)
     then char_of (n + 32) else c)"

definition toLowerCase :: "string \<Rightarrow> string" where
  "toLowerCase s = map lowerChar s"

definition canonicalize :: "char \<Rightarrow> char" where
  \<comment> \<open>the case folding of a regular expression with the \<open>i\<close> flag and without the \<open>u\<close> flag:
      the upper-case code unit. The two code units below 256 whose upper case lies above 255
      (181 and 255) fold to a code unit no other one folds to, so they stay themselves here.\<close>
  "canonicalize c = (let n = (of_char c :: nat) in
     if (97 \<le> n \<and> n \<le> 122) \<or> (224 \<le> n \<and> n \<le> 254 \<and> n \<noteq> 247)
     then char_of (n - 32) else c)"

definition trim :: "string \<Rightarrow> string" where
  "trim s = rev (dropWhile isWhiteSpace (rev (dropWhile isWhiteSpace s)))"

definition substring :: "string \<Rightarrow> nat \<Rightarrow> nat \<Rightarrow> string" where
  \<comment> \<open>\<open>s.substring(start, stop)\<close> for \<open>start \<le> stop\<close>\<close>
  "substring s start stop = take (stop - start) (drop start s)"

text \<open>
  \<open>s.split(re)\<close> for a regular expression \<open>re\<close> that matches the maximal runs of one
  character class (\<open>/\W+/\<close>, \<open>/\s+/\<close>): the pieces between the runs, with an empty first piece
  when \<open>s\<close> starts with a separator, an empty last piece when it ends with one, and the one
  piece \<open>""\<close> for the empty string. \<open>cur\<close> is the piece being read.
\<close>

function splitRuns :: "(char \<Rightarrow> bool) \<Rightarrow> string \<Rightarrow> string \<Rightarrow> string list" where
  "splitRuns sep cur [] = [cur]"
| "splitRuns sep cur (c # cs) =
     (if sep c then cur # splitRuns sep [] (dropWhile sep cs) else splitRuns sep (cur @ [c]) cs)"
  by pat_completeness auto
termination
  by (relation "measure (\<lambda>(sep, cur, s). length s)")
     (auto simp: length_dropWhile_le le_imp_less_Suc)

fun isPrefix :: "string \<Rightarrow> string \<Rightarrow> bool" where
  "isPrefix sub s = (take (length sub) s = sub)"

fun str_includes :: "string \<Rightarrow> string \<Rightarrow> bool" where
  \<comment> \<open>\<open>s.includes(sub)\<close>\<close>
  "str_includes [] sub = (sub = [])"
| "str_includes (c # cs) sub = (isPrefix sub (c # cs) \<or> str_includes cs sub)"

section \<open>Double-precision sums of tenths (\<open>analyzeSentiment\<close>)\<close>

text \<open>
  \<open>analyzeSentiment\<close> adds and subtracts the double \<open>0.1\<close>, starting from \<open>0\<close>, and compares
  the sum with the double \<open>-0.2\<close>. The double \<open>0.1\<close> is \<open>3602879701896397 * 2^-55\<close>, so
  every sum is an integer multiple of \<open>2^-55\<close>; a double is represented by that integer. An
  addition is the exact sum rounded to 53 significant bits, ties to even. (Exponent overflow
  would need more than \<open>10^308\<close> words and is not modelled.)
\<close>

type_synonym f64 = int

definition round_f64 :: "int \<Rightarrow> f64" where
  "round_f64 n = (let k = bitlen \<bar>n\<bar> - 53 in
     if k \<le> 0 then n
     else let q = 2 ^ nat k; d = n div q; r = n mod q in
       (if 2 * r < q then d else if q < 2 * r then d + 1 else if even d then d else d + 1) * q)"

definition f64_tenth :: f64 where
  \<comment> \<open>the double \<open>0.1\<close>\<close>
  "f64_tenth = 3602879701896397"

definition f64_two_tenths :: f64 where
  \<comment> \<open>the double \<open>0.2\<close>\<close>
  "f64_two_tenths = 7205759403792794"

definition f64_one :: f64 where
  \<comment> \<open>the double \<open>1\<close>, that is \<open>2^55\<close> units\<close>
  "f64_one = 36028797018963968"

definition positiveWords :: "string list" where
  "positiveWords = [''good'', ''great'', ''excellent'', ''positive'', ''wonderful'', ''best'',
     ''love'', ''happy'', ''right'', ''free'']"

definition negativeWords :: "string list" where
  "negativeWords = [''bad'', ''terrible'', ''awful'', ''negative'', ''worst'', ''hate'', ''sad'',
     ''wrong'', ''evil'', ''corrupt'']"

definition sentimentStep :: "f64 \<Rightarrow> string \<Rightarrow> f64" where
  \<comment> \<open>the body of \<open>words.forEach\<close>\<close>
  "sentimentStep score word =
     (let s1 = (if word \<in> set positiveWords then round_f64 (score + f64_tenth) else score)
      in if word \<in> set negativeWords then round_f64 (s1 - f64_tenth) else s1)"

definition analyzeSentiment :: "string \<Rightarrow> f64" where
  "analyzeSentiment text =
     (let words = splitRuns (\<lambda>c. \<not> isWordChar c) [] (toLowerCase text);
          score = foldl sentimentStep 0 words
      in max (- f64_one) (min f64_one score))"

section \<open>The indicators\<close>

record Indicator =
  indicator_id :: nat
  indicator_name :: string
  description :: string
  indicator_keywords :: "string list"  \<comment> \<open>the field \<open>keywords\<close> of the source\<close>

definition INDICATORS :: "Indicator list" where
  "INDICATORS = [
    \<lparr>indicator_id = 1,
     indicator_name = ''Rejection of democratic rules'',
     description = ''Rejection or weak commitment to democratic rules of the game, such as refusing to accept election results, suggesting the need to suspend the constitution, or advocating extraconstitutional measures.'',
     indicator_keywords = [
       ''constitution'', ''election'', ''suspend'', ''reject'', ''rules'', ''democracy'', ''coup'',
       ''overthrow'', ''military'', ''extraconstitutional'', ''martial law'', ''emergency powers'',
       ''override'', ''ignore results'', ''rigged election'', ''stolen election'', ''illegal votes'',
       ''constitutional crisis'', ''refuse to concede'', ''refuse to accept'', ''delay election'',
       ''postpone election'', ''cancel election'', ''nullify'']\<rparr>,
    \<lparr>indicator_id = 2,
     indicator_name = ''Denial of legitimacy of opponents'',
     description = ''Denying the legitimacy of political opponents, describing them as subversive, criminal, or foreign agents who pose an existential threat.'',
     indicator_keywords = [
       ''enemy'', ''traitor'', ''criminal'', ''subversive'', ''illegitimate'', ''threat'', ''foreign'',
       ''agent'', ''spy'', ''terrorist'', ''corrupt'', ''radical'', ''extremist'', ''dangerous'',
       ''un-American'', ''unpatriotic'', ''treasonous'', ''sedition'', ''conspiracy'', ''deep state'',
       ''puppet'', ''controlled by'', ''infiltrated'', ''fifth column'', ''disloyal'',
       ''enemy of the people'', ''enemy of the state'', ''lock them up'']\<rparr>,
    \<lparr>indicator_id = 3,
     indicator_name = ''Toleration of violence'',
     description = ''Tolerating or encouraging violence, or showing a willingness to curtail civil liberties of opponents, including media.'',
     indicator_keywords = [
       ''violence'', ''force'', ''attack'', ''suppress'', ''silence'', ''censor'', ''media'',
       ''journalist'', ''protest'', ''civil liberties'', ''rights'', ''crackdown'', ''crush'',
       ''destroy'', ''eliminate'', ''rough up'', ''beat'', ''fight back'', ''take them out'', ''punch'',
       ''second amendment'', ''armed'', ''militia'', ''mob'', ''riot'', ''storm'', ''take by force'',
       ''blood'', ''sacrifice'', ''battle'', ''war'', ''combat'', ''struggle'']\<rparr>,
    \<lparr>indicator_id = 4,
     indicator_name = ''Readiness to curtail civil liberties'',
     description = ''Readiness to curtail civil liberties of opponents, including media freedom, or showing support for measures that would restrict rights.'',
     indicator_keywords = [
       ''restrict'', ''limit'', ''curtail'', ''freedom'', ''liberty'', ''rights'', ''press'', ''speech'',
       ''assembly'', ''opposition'', ''dissent'', ''ban'', ''shut down'', ''close'', ''censor'',
       ''silence'', ''gag'', ''muzzle'', ''fake news'', ''enemy of the people'', ''libel laws'',
       ''defamation'', ''national security'', ''surveillance'', ''monitor'', ''track'', ''investigate'',
       ''detain'', ''arrest'', ''imprison'', ''deport'', ''expel'']\<rparr>]"

record ProcessedIndicator = Indicator +
  processedKeywords :: "string list"

definition prepareKeywords :: "ProcessedIndicator list" where
  \<comment> \<open>\<open>{...indicator, processedKeywords: ...}\<close> for every indicator\<close>
  "prepareKeywords =
     map (\<lambda>ind. Indicator.extend ind
            (ProcessedIndicator.fields (map toLowerCase (indicator_keywords ind)))) INDICATORS"

definition processedIndicators :: "ProcessedIndicator list" where
  "processedIndicators = prepareKeywords"

section \<open>The indicator scorer (\<open>analyzeText\<close>)\<close>

text \<open>
  The regular expression \<open>new RegExp(`\\b${keyword}\\b`, 'gi')\<close>, for a keyword without
  regular-expression metacharacters (as all the indicators' keywords are): the keyword itself,
  compared case-insensitively, with a word boundary on each side.
\<close>

definition wordBoundary :: "string \<Rightarrow> nat \<Rightarrow> bool" where
  \<comment> \<open>\<open>\b\<close> at position \<open>p\<close>: exactly one of the two neighbours is a word character\<close>
  "wordBoundary s p =
     ((0 < p \<and> p \<le> length s \<and> isWordChar (s ! (p - 1))) \<noteq> (p < length s \<and> isWordChar (s ! p)))"

definition matchesAt :: "string \<Rightarrow> string \<Rightarrow> nat \<Rightarrow> bool" where
  "matchesAt keyword s i =
     (i + length keyword \<le> length s \<and> wordBoundary s i \<and>
      map canonicalize (substring s i (i + length keyword)) = map canonicalize keyword \<and>
      wordBoundary s (i + length keyword))"

text \<open>
  All matches of the global expression, left to right from index \<open>i\<close>, each with its index:
  what both \<open>text.match(regex)\<close> and the \<open>tempRegex.exec(text)\<close> loop enumerate. The
  search resumes at the end of a match. (For an empty keyword, which no indicator has, the
  search here moves on by one.)
\<close>

function regexMatches :: "string \<Rightarrow> string \<Rightarrow> nat \<Rightarrow> (nat \<times> string) list" where
  "regexMatches keyword s i =
     (if length s < i then []
      else if matchesAt keyword s i
        then (i, substring s i (i + length keyword)) #
               regexMatches keyword s (i + max 1 (length keyword))
        else regexMatches keyword s (i + 1))"
  by pat_completeness auto
termination
  by (relation "measure (\<lambda>(keyword, s, i). Suc (length s) - i)") auto

declare regexMatches.simps [simp del]

record MatchDetail =
  original :: string
  ctx :: string  \<comment> \<open>the field \<open>context\<close> of the source\<close>

record AnalysisResult =
  indicator :: ProcessedIndicator
  score :: nat
  matches :: "string list"
  matchDetails :: "MatchDetail list"

definition keywordMatches :: "string \<Rightarrow> string \<Rightarrow> string list" where
  \<comment> \<open>\<open>found\<close>: what one keyword pushes onto \<open>matches\<close>\<close>
  "keywordMatches text keyword = map snd (regexMatches keyword text 0)"

definition keywordDetails :: "string \<Rightarrow> string \<Rightarrow> MatchDetail list" where
  \<comment> \<open>what one keyword pushes onto \<open>matchDetails\<close>\<close>
  "keywordDetails text keyword =
     map (\<lambda>(idx, m).
            \<lparr>original = m,
             ctx = substring text (idx - 30) (min (length text) (idx + length keyword + 30))\<rparr>)
         (regexMatches keyword text 0)"

definition allMatches :: "string \<Rightarrow> string list \<Rightarrow> string list" where
  \<comment> \<open>\<open>matches\<close> after the \<open>forEach\<close> over the processed keywords\<close>
  "allMatches text kws = concat (map (keywordMatches text) kws)"

definition setAdd :: "'a list \<Rightarrow> 'a \<Rightarrow> 'a list" where
  \<comment> \<open>\<open>Set.prototype.add\<close>: a set keeps its elements in insertion order\<close>
  "setAdd s x = (if x \<in> set s then s else s @ [x])"

definition newSet :: "'a list \<Rightarrow> 'a list" where
  \<comment> \<open>\<open>[...new Set(xs)]\<close>\<close>
  "newSet xs = foldl setAdd [] xs"

fun findIndex :: "('a \<Rightarrow> bool) \<Rightarrow> 'a list \<Rightarrow> nat option" where
  "findIndex P [] = None"
| "findIndex P (x # xs) = (if P x then Some 0 else map_option Suc (findIndex P xs))"

definition firstOccurrences :: "'a list \<Rightarrow> 'a list" where
  \<comment> \<open>\<open>a.filter((v, i, a) => a.findIndex(t => t equals v) === i)\<close>\<close>
  "firstOccurrences a =
     map snd (filter (\<lambda>(i, v). findIndex (\<lambda>t. t = v) a = Some i) (enumerate 0 a))"

definition scoreOf :: "nat \<Rightarrow> f64 \<Rightarrow> nat" where
  \<comment> \<open>the score from the number of unique matches and the sentiment of the text\<close>
  "scoreOf n sentiment =
     (let base = min 10 (n * 2)
      in if 0 < n then (if sentiment < - f64_two_tenths then min 10 (base + 1) else base)
         else base)"

definition analyzeIndicator :: "string \<Rightarrow> ProcessedIndicator \<Rightarrow> AnalysisResult" where
  "analyzeIndicator text ind =
     (let uniqueMatches = newSet (allMatches text (processedKeywords ind))
      in \<lparr>indicator = ind,
          score = scoreOf (length uniqueMatches) (analyzeSentiment text),
          matches = uniqueMatches,
          matchDetails =
            firstOccurrences (concat (map (keywordDetails text) (processedKeywords ind)))\<rparr>)"

definition analyzeText :: "string \<Rightarrow> AnalysisResult list" where
  "analyzeText text =
     (if text = [] \<or> length (trim text) = 0 then []
      else map (analyzeIndicator text) processedIndicators)"

section \<open>JavaScript values and errors\<close>

datatype js_value =
    JNumber real       \<comment> \<open>a finite number\<close>
  | JNaN
  | JInfinity bool     \<comment> \<open>\<open>Infinity\<close> (\<open>True\<close>) and \<open>-Infinity\<close>\<close>
  | JString string
  | JFunction string   \<comment> \<open>a function, with the string it is converted to\<close>
  | JObject            \<comment> \<open>a plain object\<close>
  | JUndefined

text \<open>The elements of a typed array of floats are numbers and nothing else.\<close>

datatype js_number =
    Finite real     \<comment> \<open>a finite number\<close>
  | NotANumber      \<comment> \<open>\<open>NaN\<close>\<close>
  | Infinite bool   \<comment> \<open>\<open>Infinity\<close> (\<open>True\<close>) and \<open>-Infinity\<close>\<close>

record LabeledExample =
  ex_text :: string   \<comment> \<open>the field \<open>text\<close> of the source\<close>
  label :: js_value

datatype js_error =
    Error string   \<comment> \<open>an \<open>Error\<close> with its message\<close>
  | NotAnError     \<comment> \<open>a thrown value that is no instance of \<open>Error\<close>\<close>

section \<open>The training-example labeler (\<open>PDFExtractor.extractTrainingData\<close>)\<close>

definition newline :: char where
  "newline = CHR 0x0A"

text \<open>
  \<open>/\n\s*\n/\<close> tried at the start of \<open>s\<close>: a newline, then the longest stretch of white
  space that still ends in a newline (the greedy \<open>\s*\<close> gives characters back until a
  newline follows). The result is the length of the match.
\<close>

definition matchParagraphBreak :: "string \<Rightarrow> nat option" where
  "matchParagraphBreak s =
     (case s of
        [] \<Rightarrow> None
      | c # cs \<Rightarrow>
          if c \<noteq> newline then None
          else let ws = takeWhile isWhiteSpace cs;
                   k = length (dropWhile (\<lambda>x. x \<noteq> newline) (rev ws))
               in if k = 0 then None else Some (Suc k))"

text \<open>\<open>text.split(/\n\s*\n/)\<close> of a non-empty text; \<open>cur\<close> is the paragraph being read.\<close>

function splitParagraphs :: "string \<Rightarrow> string \<Rightarrow> string list" where
  "splitParagraphs cur s =
     (case s of
        [] \<Rightarrow> [cur]
      | c # cs \<Rightarrow>
          (case matchParagraphBreak s of
             Some n \<Rightarrow> cur # splitParagraphs [] (drop n s)
           | None \<Rightarrow> splitParagraphs (cur @ [c]) cs))"
  by pat_completeness auto
termination
  by (relation "measure (\<lambda>(cur, s). length s)")
     (auto simp: matchParagraphBreak_def Let_def split: if_splits)

declare splitParagraphs.simps [simp del]

definition isTerminator :: "char \<Rightarrow> bool" where
  \<comment> \<open>the class \<open>[.!?]\<close>\<close>
  "isTerminator c = (c = CHR ''.'' \<or> c = CHR ''!'' \<or> c = CHR ''?'')"

text \<open>
  \<open>paragraph.match(/[^.!?]+[.!?]+/g) || []\<close>: each match is a longest run of characters that
  are no terminators followed by a longest run of terminators. Terminators at the start have
  nothing before them and are skipped; a last run with no terminator after it is no match.
\<close>

function matchSentences :: "string \<Rightarrow> string list" where
  "matchSentences s =
     (let s1 = dropWhile isTerminator s;
          body = takeWhile (\<lambda>c. \<not> isTerminator c) s1;
          rest = dropWhile (\<lambda>c. \<not> isTerminator c) s1;
          terms = takeWhile isTerminator rest
      in if terms = [] then []
         else (body @ terms) # matchSentences (dropWhile isTerminator rest))"
  by pat_completeness auto
termination
proof (relation "measure length")
  show "wf (measure length)" by simp
next
  fix s s1 body rest terms :: string
  assume s1: "s1 = dropWhile isTerminator s"
    and rest: "rest = dropWhile (\<lambda>c. \<not> isTerminator c) s1"
    and terms: "terms = takeWhile isTerminator rest"
    and ne: "terms \<noteq> []"
  from terms ne have "rest \<noteq> []" by auto
  with terms ne have "isTerminator (hd rest)" by (cases rest) (auto split: if_splits)
  with \<open>rest \<noteq> []\<close> have "length (dropWhile isTerminator rest) < length rest"
    by (cases rest) (auto simp: length_dropWhile_le le_imp_less_Suc)
  moreover have "length rest \<le> length s1" unfolding rest by (rule length_dropWhile_le)
  moreover have "length s1 \<le> length s" unfolding s1 by (rule length_dropWhile_le)
  ultimately show "(dropWhile isTerminator rest, s) \<in> measure length" by simp
qed

declare matchSentences.simps [simp del]

fun scanKeywords :: "string \<Rightarrow> string list \<Rightarrow> bool" where
  \<comment> \<open>the loop over \<open>indicator.keywords\<close>: it stops with \<open>foundIndicator\<close> set at the first
      keyword the sentence includes\<close>
  "scanKeywords sentence [] = False"
| "scanKeywords sentence (keyword # rest) =
     (if str_includes (toLowerCase sentence) (toLowerCase keyword) then True
      else scanKeywords sentence rest)"

fun scanIndicators :: "string \<Rightarrow> nat \<Rightarrow> nat option" where
  \<comment> \<open>the loop \<open>for (let i = 0; i < 4; i++)\<close> from \<open>i = 4 - n\<close> on: \<open>Some indicatorId\<close> when
      \<open>foundIndicator\<close> ends up set\<close>
  "scanIndicators sentence 0 = None"
| "scanIndicators sentence (Suc n) =
     (let i = 4 - Suc n
      in if scanKeywords sentence (indicator_keywords (INDICATORS ! i)) then Some (i + 1)
         else scanIndicators sentence n)"

text \<open>
  \<open>Math.random() < 0.1\<close> is an input of the run: \<open>coin k\<close> is the outcome of the \<open>k\<close>-th
  draw, and the number of draws made so far is passed along.
\<close>

definition labelSentence ::
  "(nat \<Rightarrow> bool) \<Rightarrow> nat \<Rightarrow> string \<Rightarrow> LabeledExample list \<times> nat" where
  \<comment> \<open>the body of \<open>for (const sentence of sentences)\<close>: what it pushes onto \<open>trainingData\<close>\<close>
  "labelSentence coin k sentence =
     (if length (trim sentence) < 20 then ([], k)
      else case scanIndicators sentence 4 of
             Some indicatorId \<Rightarrow>
               ([\<lparr>ex_text = trim sentence, label = JNumber (real indicatorId)\<rparr>], k)
           | None \<Rightarrow>
               if coin k then ([\<lparr>ex_text = trim sentence, label = JNumber 0\<rparr>], Suc k)
               else ([], Suc k))"

fun labelSentences ::
  "(nat \<Rightarrow> bool) \<Rightarrow> nat \<Rightarrow> string list \<Rightarrow> LabeledExample list \<times> nat" where
  "labelSentences coin k [] = ([], k)"
| "labelSentences coin k (s # ss) =
     (let (xs, k1) = labelSentence coin k s;
          (ys, k2) = labelSentences coin k1 ss
      in (xs @ ys, k2))"

definition processParagraph ::
  "(nat \<Rightarrow> bool) \<Rightarrow> nat \<Rightarrow> string \<Rightarrow> LabeledExample list \<times> nat" where
  \<comment> \<open>the body of \<open>for (const paragraph of paragraphs)\<close>\<close>
  "processParagraph coin k paragraph =
     (if 50 < length (trim paragraph) then labelSentences coin k (matchSentences paragraph)
      else ([], k))"

fun processParagraphs ::
  "(nat \<Rightarrow> bool) \<Rightarrow> nat \<Rightarrow> string list \<Rightarrow> LabeledExample list \<times> nat" where
  "processParagraphs coin k [] = ([], k)"
| "processParagraphs coin k (p # ps) =
     (let (xs, k1) = processParagraph coin k p;
          (ys, k2) = processParagraphs coin k1 ps
      in (xs @ ys, k2))"

definition extractTrainingData :: "string \<Rightarrow> (nat \<Rightarrow> bool) \<Rightarrow> js_error + LabeledExample list" where
  \<comment> \<open>\<open>extractedText\<close> is the field the method reads. Storing the result remotely does not
      change what is returned and is left out.\<close>
  "extractTrainingData extractedText coin =
     (if extractedText = [] \<or> length (trim extractedText) = 0
      then Inl (Error ''No text extracted from PDF'')
      else Inr (fst (processParagraphs coin 0 (splitParagraphs [] extractedText))))"

section \<open>The vectorizer (\<open>AuthoritarianClassifier.textToVector\<close>)\<close>

text \<open>
  \<open>wordCounts\<close> is a plain object created by \<open>{}\<close>: its own properties, in the order of
  their creation, over the properties it inherits from \<open>Object.prototype\<close>.
\<close>

type_synonym js_object = "(string \<times> js_value) list"

definition objectPrototypeGet :: "string \<Rightarrow> js_value" where
  \<comment> \<open>reading a property of \<open>Object.prototype\<close>. A built-in function is converted to the
      string \<open>function name() { [native code] }\<close> (the white space inside differs between
      engines; this is V8's).\<close>
  "objectPrototypeGet key =
     (if key = ''constructor'' then JFunction ''function Object() { [native code] }''
      else if key = ''__proto__'' then JObject
      else if key \<in> set [''hasOwnProperty'', ''isPrototypeOf'', ''propertyIsEnumerable'',
                ''toLocaleString'', ''toString'', ''valueOf'', ''__defineGetter__'',
                ''__defineSetter__'', ''__lookupGetter__'', ''__lookupSetter__'']
        then JFunction (''function '' @ key @ ''() { [native code] }'')
      else JUndefined)"

definition getProperty :: "js_object \<Rightarrow> string \<Rightarrow> js_value" where
  \<comment> \<open>\<open>obj[key]\<close>: the own property, else the inherited one\<close>
  "getProperty obj key = (case map_of obj key of Some v \<Rightarrow> v | None \<Rightarrow> objectPrototypeGet key)"

definition setProperty :: "js_object \<Rightarrow> string \<Rightarrow> js_value \<Rightarrow> js_object" where
  \<comment> \<open>\<open>obj[key] = v\<close> for a number or a string \<open>v\<close>. The inherited setter of \<open>__proto__\<close>
      ignores such a value and no own property is made.\<close>
  "setProperty obj key v =
     (if key = ''__proto__'' then obj
      else if key \<in> set (map fst obj) then map (\<lambda>(k, x). if k = key then (k, v) else (k, x)) obj
      else obj @ [(key, v)])"

definition orZeroPlusOne :: "js_value \<Rightarrow> js_value" where
  \<comment> \<open>\<open>(v || 0) + 1\<close>: a falsy \<open>v\<close> gives \<open>1\<close>, a number its successor, and anything else is
      turned into a string to which \<open>"1"\<close> is appended\<close>
  "orZeroPlusOne v =
     (case v of
        JNumber r \<Rightarrow> if r = 0 then JNumber 1 else JNumber (r + 1)
      | JNaN \<Rightarrow> JNumber 1
      | JInfinity b \<Rightarrow> JInfinity b
      | JString str \<Rightarrow> if str = [] then JNumber 1 else JString (str @ ''1'')
      | JFunction src \<Rightarrow> JString (src @ ''1'')
      | JObject \<Rightarrow> JString ''[object Object]1''
      | JUndefined \<Rightarrow> JNumber 1)"

definition isDigit :: "char \<Rightarrow> bool" where
  "isDigit c = (let n = (of_char c :: nat) in 48 \<le> n \<and> n \<le> 57)"

definition decimalValue :: "string \<Rightarrow> int" where
  "decimalValue str = foldl (\<lambda>a c. 10 * a + (of_char c - 48)) 0 str"

definition isArrayIndex :: "string \<Rightarrow> bool" where
  \<comment> \<open>a key that is the canonical decimal form of an integer from \<open>0\<close> to \<open>2^32 - 2\<close>\<close>
  "isArrayIndex key =
     (key \<noteq> [] \<and> list_all isDigit key \<and> (key = ''0'' \<or> hd key \<noteq> CHR ''0'') \<and>
      decimalValue key < 4294967295)"

definition objectEntries :: "js_object \<Rightarrow> (string \<times> js_value) list" where
  \<comment> \<open>\<open>Object.entries(obj)\<close>: the array indices in ascending order, then the other keys in
      the order of their creation\<close>
  "objectEntries obj =
     sort_key (\<lambda>(k, v). decimalValue k) (filter (\<lambda>(k, v). isArrayIndex k) obj) @
     filter (\<lambda>(k, v). \<not> isArrayIndex k) obj"

definition maxSequenceLength :: nat where
  "maxSequenceLength = 50"

definition countWord :: "js_object \<Rightarrow> string \<Rightarrow> js_object" where
  \<comment> \<open>the body of \<open>words.forEach\<close>\<close>
  "countWord wordCounts word =
     (if 2 < length word then setProperty wordCounts word (orZeroPlusOne (getProperty wordCounts word))
      else wordCounts)"

fun fillVector :: "js_value list \<Rightarrow> nat \<Rightarrow> (string \<times> js_value) list \<Rightarrow> js_value list" where
  \<comment> \<open>the loop over \<open>Object.entries(wordCounts)\<close>, with \<open>index\<close> as second argument\<close>
  "fillVector vector index [] = vector"
| "fillVector vector index ((word, count) # rest) =
     (if index < maxSequenceLength then fillVector (vector[index := count]) (index + 1) rest
      else vector)"

definition vectorWords :: "string \<Rightarrow> string list" where
  \<comment> \<open>\<open>words\<close>: \<open>text.toLowerCase().replace(/[^\w\s]/g, '').split(/\s+/)\<close>\<close>
  "vectorWords text =
     splitRuns isWhiteSpace [] (filter (\<lambda>c. isWordChar c \<or> isWhiteSpace c) (toLowerCase text))"

definition textToVector :: "string \<Rightarrow> js_value list" where
  "textToVector text =
     (let vector = replicate maxSequenceLength (JNumber 0);
          words = vectorWords text;
          wordCounts = foldl countWord [] words
      in fillVector vector 0 (objectEntries wordCounts))"

section \<open>The classifier (\<open>AuthoritarianClassifier\<close>)\<close>

text \<open>
  TensorFlow.js is outside the repository. What its calls do is a parameter of the embedding:
  \<open>'m\<close> is the type of a compiled model with its weights, and a call either returns or
  throws. Remote persistence (off unless a project URL is configured) and the status text
  are left out.
\<close>

record 'm TensorFlow =
  tf_buildModel :: "js_error + 'm"
    \<comment> \<open>the \<open>try\<close> block of \<open>buildModel\<close>: the layers 32-dropout-16-5, compiled\<close>
  tf_buildSimpleModel :: "js_error + 'm"
    \<comment> \<open>the \<open>try\<close> block of \<open>buildSimpleModel\<close>: the layers 10-5, compiled\<close>
  tf_fit :: "'m \<Rightarrow> js_value list list \<Rightarrow> js_value list list \<Rightarrow> nat \<Rightarrow> nat \<Rightarrow> js_error + 'm"
    \<comment> \<open>the tensors and \<open>model.fit\<close> on the vectors and the one-hot labels, with the numbers of
        epochs and the batch size\<close>
  tf_predict :: "'m \<Rightarrow> js_value list \<Rightarrow> js_error + js_number list"
    \<comment> \<open>\<open>model.predict\<close> on one vector and \<open>dataSync()\<close>: the elements of the typed array
        of outputs, which are \<open>NaN\<close> when the tensor made from the vector holds one\<close>

record 'm Classifier =
  model :: "'m option"   \<comment> \<open>\<open>None\<close> is \<open>null\<close>\<close>
  trainingData :: "LabeledExample list"
  isModelReady :: bool



definition buildSimpleModel :: "'m TensorFlow \<Rightarrow> 'm Classifier \<Rightarrow> 'm Classifier" where
  "buildSimpleModel tf c =
     (case tf_buildSimpleModel tf of
        Inr m \<Rightarrow> c\<lparr>model := Some m, isModelReady := True\<rparr>
      | Inl e \<Rightarrow> c\<lparr>model := None, isModelReady := False\<rparr>)"

definition buildModel :: "'m TensorFlow \<Rightarrow> 'm Classifier \<Rightarrow> 'm Classifier" where
  "buildModel tf c =
     (case tf_buildModel tf of
        Inr m \<Rightarrow> c\<lparr>model := Some m, isModelReady := True\<rparr>
      | Inl e \<Rightarrow> buildSimpleModel tf c)"

definition newClassifier :: "'m TensorFlow \<Rightarrow> 'm Classifier" where
  \<comment> \<open>the constructor: the field initialisers, then \<open>buildModel()\<close>, which has no \<open>await\<close> and
      so has run to its end when the constructor returns\<close>
  "newClassifier tf = buildModel tf \<lparr>model = None, trainingData = [], isModelReady = False\<rparr>"

definition typeofNumber :: "js_value \<Rightarrow> bool" where
  \<comment> \<open>\<open>typeof v === 'number'\<close>\<close>
  "typeofNumber v = (case v of JNumber r \<Rightarrow> True | JNaN \<Rightarrow> True | JInfinity b \<Rightarrow> True | _ \<Rightarrow> False)"

definition inLabelRange :: "js_value \<Rightarrow> bool" where
  \<comment> \<open>\<open>v >= 0 && v <= 4\<close> for a \<open>v\<close> of type number\<close>
  "inLabelRange v = (case v of JNumber r \<Rightarrow> 0 \<le> r \<and> r \<le> 4 | _ \<Rightarrow> False)"

definition validItem :: "LabeledExample option \<Rightarrow> bool" where
  \<comment> \<open>the filter of \<open>addTrainingData\<close>; \<open>None\<close> is an item that is \<open>null\<close> or \<open>undefined\<close>\<close>
  "validItem item =
     (case item of
        None \<Rightarrow> False
      | Some x \<Rightarrow> ex_text x \<noteq> [] \<and> typeofNumber (label x) \<and> inLabelRange (label x))"

definition addTrainingData ::
  "LabeledExample option list \<Rightarrow> 'm Classifier \<Rightarrow> nat \<times> 'm Classifier" where
  \<comment> \<open>the new size of the training set, and the classifier after the call\<close>
  "addTrainingData data c =
     (let validData = map the (filter validItem data);
          c1 = c\<lparr>trainingData := trainingData c @ validData\<rparr>
      in (length (trainingData c1), c1))"

definition getTrainingDataSize :: "'m Classifier \<Rightarrow> nat" where
  "getTrainingDataSize c = length (trainingData c)"

definition oneHot :: "js_value \<Rightarrow> js_value list" where
  \<comment> \<open>\<open>Array(5).fill(0)\<close> with \<open>label[item.label] = 1\<close>: an index from 5 on lengthens the array
      (the holes read as \<open>undefined\<close>), and a label that is no index leaves the elements as
      they are\<close>
  "oneHot l =
     (let zeros = replicate 5 (JNumber 0)
      in case l of
           JNumber r \<Rightarrow>
             if 0 \<le> r \<and> real_of_int \<lfloor>r\<rfloor> = r \<and> r < 4294967295
             then (let i = nat \<lfloor>r\<rfloor>
                   in if i < 5 then zeros[i := JNumber 1]
                      else zeros @ replicate (i - 5) JUndefined @ [JNumber 1])
             else zeros
         | _ \<Rightarrow> zeros)"

definition errorMessage :: "js_error \<Rightarrow> string" where
  \<comment> \<open>\<open>error instanceof Error ? error.message : 'Unknown error'\<close>\<close>
  "errorMessage e = (case e of Error msg \<Rightarrow> msg | NotAnError \<Rightarrow> ''Unknown error'')"

definition fitModel ::
  "'m TensorFlow \<Rightarrow> nat \<Rightarrow> nat \<Rightarrow> 'm Classifier \<Rightarrow> (js_error + unit) \<times> 'm Classifier" where
  \<comment> \<open>the \<open>try\<close>/\<open>catch\<close> of \<open>train\<close>, reached after the two checks\<close>
  "fitModel tf epochs batchSize c =
     (let vectors = map (\<lambda>item. textToVector (ex_text item)) (trainingData c);
          labels = map (\<lambda>item. oneHot (label item)) (trainingData c);
          actualEpochs = min epochs 5;
          actualBatchSize = min batchSize 4;
          fitted = (case model c of
                      Some m \<Rightarrow> tf_fit tf m vectors labels actualEpochs actualBatchSize
                    | None \<Rightarrow> Inl (Error ''Cannot read properties of null (reading 'fit')''))
      in case fitted of
           Inr m1 \<Rightarrow> (Inr (), c\<lparr>model := Some m1\<rparr>)
         | Inl e \<Rightarrow> (Inl (Error (''Training failed: '' @ errorMessage e)), buildSimpleModel tf c))"

definition notInitializedMessage :: string where
  "notInitializedMessage = ''Model not initialized. Please rebuild the model.''"

definition notEnoughDataMessage :: string where
  "notEnoughDataMessage = ''Not enough training data. Need at least 10 examples.''"

definition train ::
  "'m TensorFlow \<Rightarrow> nat \<Rightarrow> nat \<Rightarrow> 'm Classifier \<Rightarrow> (js_error + unit) \<times> 'm Classifier" where
  \<comment> \<open>\<open>train(epochs, batchSize)\<close>: what it returns or throws, and the classifier after the call\<close>
  "train tf epochs batchSize c =
     (let notReady = (model c = None \<or> \<not> isModelReady c);
          c1 = (if notReady then buildModel tf c else c)
      in if notReady \<and> model c1 = None then (Inl (Error notInitializedMessage), c1)
         else if length (trainingData c1) < 10 then (Inl (Error notEnoughDataMessage), c1)
         else fitModel tf epochs batchSize c1)"









section \<open>Notions of the specification\<close>

definition ciDistinctCount :: "string list \<Rightarrow> nat" where
  \<comment> \<open>the number of strings of a list that are distinct when compared without regard to
      case\<close>
  "ciDistinctCount ms = card (set (map toLowerCase ms))"

definition claimedScore :: "nat \<Rightarrow> f64 \<Rightarrow> nat" where
  \<comment> \<open>the scoring formula in the specification's words: \<open>min(10, uniqueMatchCount * 2)\<close>, plus
      one (clamped to 10 again) exactly when there is a match and the sentiment is below
      \<open>-0.2\<close>\<close>
  "claimedScore uniqueMatchCount sentiment =
     (if 0 < uniqueMatchCount \<and> sentiment < - f64_two_tenths
      then min 10 (min 10 (uniqueMatchCount * 2) + 1)
      else min 10 (uniqueMatchCount * 2))"

definition hasKeywordOf :: "string \<Rightarrow> Indicator \<Rightarrow> bool" where
  \<comment> \<open>the sentence contains a keyword of the indicator as a substring, case-insensitively\<close>
  "hasKeywordOf sentence ind =
     (\<exists>keyword \<in> set (indicator_keywords ind). \<exists>before after.
        toLowerCase sentence = before @ toLowerCase keyword @ after)"

definition isCount :: "js_value \<Rightarrow> bool" where
  \<comment> \<open>a non-negative integer\<close>
  "isCount v = (\<exists>n::nat. v = JNumber (real n))"

definition isUpperAscii :: "char \<Rightarrow> bool" where
  "isUpperAscii c = (65 \<le> (of_char c :: nat) \<and> (of_char c :: nat) \<le> 90)"

definition countsOnly :: "js_object \<Rightarrow> bool" where
  \<comment> \<open>every own property holds a positive integer\<close>
  "countsOnly obj = (\<forall>(k, v) \<in> set obj. \<exists>n::nat. 0 < n \<and> v = JNumber (real n))"

subsection \<open>Behaviours of TensorFlow.js\<close>

text \<open>
  A model is represented by \<open>()\<close> in all of them. In the first every build throws (no
  backend is there to hold the weights). In the second the builds succeed and the model
  answers with the uniform distribution over the five classes, which is what a softmax
  layer gives on the zero vector while the biases are zero, as they are after a build. The
  third takes the outcomes of the calls as arguments.
\<close>

definition tfUnavailable :: "unit TensorFlow" where
  "tfUnavailable =
     \<lparr>tf_buildModel = Inl (Error ''No backend found in registry.''),
      tf_buildSimpleModel = Inl (Error ''No backend found in registry.''),
      tf_fit = (\<lambda>m xs ys epochs batchSize. Inl (Error ''No backend found in registry.'')),
      tf_predict = (\<lambda>m x. Inl (Error ''No backend found in registry.''))\<rparr>"

definition tfUniform :: "unit TensorFlow" where
  "tfUniform =
     \<lparr>tf_buildModel = Inr (),
      tf_buildSimpleModel = Inr (),
      tf_fit = (\<lambda>m xs ys epochs batchSize. Inr ()),
      tf_predict = (\<lambda>m x. Inr [Finite (1/5), Finite (1/5), Finite (1/5), Finite (1/5),
                              Finite (1/5)])\<rparr>"

definition tfWith ::
  "js_error + unit \<Rightarrow> js_error + unit \<Rightarrow> js_error + js_number list \<Rightarrow> unit TensorFlow" where
  \<comment> \<open>a TensorFlow.js with the given outcomes of the build, of the fallback build and of a
      forward pass, and a fit that succeeds\<close>
  "tfWith build simple out =
     \<lparr>tf_buildModel = build,
      tf_buildSimpleModel = simple,
      tf_fit = (\<lambda>m xs ys epochs batchSize. Inr ()),
      tf_predict = (\<lambda>m x. out)\<rparr>"

definition nineExamples :: "LabeledExample option list" where
  "nineExamples =
     replicate 9 (Some \<lparr>ex_text = ''Our enemy is within the gates.'', label = JNumber 2\<rparr>)"

section \<open>Properties of the indicator scorer\<close>

lemma foldl_setAdd:
  "distinct acc \<Longrightarrow>
   distinct (foldl setAdd acc xs) \<and> set (foldl setAdd acc xs) = set acc \<union> set xs"
  by (induction xs arbitrary: acc) (auto simp: setAdd_def)

lemma distinct_newSet: "distinct (newSet xs)"
  using foldl_setAdd [of "[]" xs] by (simp add: newSet_def)

lemma set_newSet: "set (newSet xs) = set xs"
  using foldl_setAdd [of "[]" xs] by (simp add: newSet_def)

lemma length_newSet: "length (newSet xs) = card (set xs)"
  using distinct_card [OF distinct_newSet, of xs] by (simp add: set_newSet)

lemma scoreOf_claimedScore: "scoreOf n s = claimedScore n s"
  by (simp add: scoreOf_def claimedScore_def Let_def)

lemma scoreOf_le: "scoreOf n s \<le> 10"
  by (simp add: scoreOf_def Let_def)

lemma length_processedIndicators: "length processedIndicators = 4"
  by (simp add: processedIndicators_def prepareKeywords_def INDICATORS_def)

lemma truncate_processedIndicators: "map Indicator.truncate processedIndicators = INDICATORS"
  by (simp add: processedIndicators_def prepareKeywords_def Indicator.truncate_def
      Indicator.extend_def o_def map_idI)

lemma ids_INDICATORS: "map indicator_id INDICATORS = [1, 2, 3, 4]"
  by (simp add: INDICATORS_def)

lemma analyzeText_nonblank:
  "trim text \<noteq> [] \<Longrightarrow> analyzeText text = map (analyzeIndicator text) processedIndicators"
  by (auto simp: analyzeText_def trim_def)

lemma matches_analyzeIndicator:
  "matches (analyzeIndicator text ind) = newSet (allMatches text (processedKeywords ind))"
  by (simp add: analyzeIndicator_def Let_def)

lemma score_analyzeIndicator:
  "score (analyzeIndicator text ind) =
     scoreOf (length (newSet (allMatches text (processedKeywords ind)))) (analyzeSentiment text)"
  by (simp add: analyzeIndicator_def Let_def)

lemma indicator_analyzeIndicator: "indicator (analyzeIndicator text ind) = ind"
  by (simp add: analyzeIndicator_def Let_def)

subsection \<open>The text \<open>Coup coup\<close>\<close>

lemma processedKeywords_first:
  "processedKeywords (processedIndicators ! 0) =
     map toLowerCase (indicator_keywords (INDICATORS ! 0))"
  by (simp add: processedIndicators_def prepareKeywords_def INDICATORS_def
      Indicator.extend_def ProcessedIndicator.fields_def)

lemma coup_allMatches:
  "allMatches ''Coup coup'' (map toLowerCase (indicator_keywords (INDICATORS ! 0))) =
     [''Coup'', ''coup'']"
  by code_simp

lemma coup_sentiment: "analyzeSentiment ''Coup coup'' = 0"
  by code_simp

lemma coup_trim: "trim ''Coup coup'' \<noteq> []"
  by code_simp

lemma coup_lower: "toLowerCase ''Coup'' = ''coup'' \<and> toLowerCase ''coup'' = ''coup''"
  by code_simp

lemma coup_first:
  "analyzeText ''Coup coup'' ! 0 = analyzeIndicator ''Coup coup'' (processedIndicators ! 0)"
  by (simp add: analyzeText_nonblank [OF coup_trim] length_processedIndicators)

lemma coup_first_mem: "analyzeText ''Coup coup'' ! 0 \<in> set (analyzeText ''Coup coup'')"
  by (rule nth_mem) (simp add: analyzeText_nonblank [OF coup_trim] length_processedIndicators)

lemma coup_matches: "matches (analyzeText ''Coup coup'' ! 0) = [''Coup'', ''coup'']"
  by (simp add: coup_first matches_analyzeIndicator processedKeywords_first coup_allMatches
      newSet_def setAdd_def)

lemma coup_score: "score (analyzeText ''Coup coup'' ! 0) = 4"
  by (simp add: coup_first score_analyzeIndicator processedKeywords_first coup_allMatches
      newSet_def setAdd_def coup_sentiment scoreOf_def f64_two_tenths_def)

subsection \<open>Claim C2\<close>

text \<open>
  C2, as amended: \<open>analyzeText\<close> applied to the empty string returns the empty list. The
  first statement of the function returns \<open>[]\<close> for a text that is empty or only white
  space, so there is no result per indicator for it.
\<close>

theorem analyzeText_empty: "analyzeText '''' = []"
  by (simp add: analyzeText_def)

text \<open>
  C2 as stated (four results, each with score 0 and no matches) fails: the list returned for
  the empty string has no element.
\<close>

theorem analyzeText_empty_not_four:
  "\<not> (length (analyzeText '''') = 4 \<and>
      list_all (\<lambda>r. score r = 0 \<and> matches r = []) (analyzeText ''''))"
  by (simp add: analyzeText_def)

subsection \<open>Claim C10\<close>

lemma processedKeywords_processedIndicators:
  "map processedKeywords processedIndicators =
     map (\<lambda>ind. map toLowerCase (indicator_keywords ind)) INDICATORS"
  by (simp add: processedIndicators_def prepareKeywords_def Indicator.extend_def
      ProcessedIndicator.fields_def o_def)

lemma analyzeText_blank: "trim text = [] \<Longrightarrow> analyzeText text = []"
  by (simp add: analyzeText_def)

lemma blank_trim: "trim [CHR '' '', CHR 0x09, CHR 0x0A] = []"
  by (simp add: trim_def isWhiteSpace_def)

text \<open>
  C10, as amended: for every text that has a character other than white space,
  \<open>analyzeText\<close> returns exactly one result per indicator, in the order of the indicator
  ids 1, 2, 3, 4, and the indicator of the \<open>i\<close>-th result is the \<open>i\<close>-th static indicator,
  to which its keywords in lower case are added as \<open>processedKeywords\<close>. For a text that
  is empty or only white space it returns the empty list. The static indicator list is
  never modified: it is a constant that the operations read, and the results of every call
  carry its four entries as they are declared.
\<close>

theorem analyzeText_one_result_per_indicator:
  "(trim text \<noteq> [] \<longrightarrow>
      length (analyzeText text) = 4 \<and>
      map (\<lambda>r. indicator_id (indicator r)) (analyzeText text) = [1, 2, 3, 4] \<and>
      map (\<lambda>r. Indicator.truncate (indicator r)) (analyzeText text) = INDICATORS \<and>
      map (\<lambda>r. processedKeywords (indicator r)) (analyzeText text) =
        map (\<lambda>ind. map toLowerCase (indicator_keywords ind)) INDICATORS) \<and>
   (trim text = [] \<longrightarrow> analyzeText text = [])"
proof (intro conjI impI)
  assume nb: "trim text \<noteq> []"
  have eq: "analyzeText text = map (analyzeIndicator text) processedIndicators"
    using nb by (rule analyzeText_nonblank)
  show "length (analyzeText text) = 4"
    by (simp add: eq length_processedIndicators)
  show tr: "map (\<lambda>r. Indicator.truncate (indicator r)) (analyzeText text) = INDICATORS"
    using truncate_processedIndicators by (simp add: eq o_def indicator_analyzeIndicator)
  have "map (\<lambda>r. indicator_id (indicator r)) (analyzeText text) =
        map indicator_id (map (\<lambda>r. Indicator.truncate (indicator r)) (analyzeText text))"
    by (simp add: o_def Indicator.truncate_def)
  with tr show "map (\<lambda>r. indicator_id (indicator r)) (analyzeText text) = [1, 2, 3, 4]"
    by (simp add: ids_INDICATORS)
  show "map (\<lambda>r. processedKeywords (indicator r)) (analyzeText text) =
        map (\<lambda>ind. map toLowerCase (indicator_keywords ind)) INDICATORS"
    using processedKeywords_processedIndicators
    by (simp add: eq o_def indicator_analyzeIndicator)
next
  assume "trim text = []"
  then show "analyzeText text = []" by (rule analyzeText_blank)
qed

theorem analyzeText_one_result_per_indicator_witness:
  "trim ''Coup coup'' \<noteq> [] \<and> length (analyzeText ''Coup coup'') = 4 \<and>
   map (\<lambda>r. indicator_id (indicator r)) (analyzeText ''Coup coup'') = [1, 2, 3, 4] \<and>
   map (\<lambda>r. Indicator.truncate (indicator r)) (analyzeText ''Coup coup'') = INDICATORS \<and>
   trim [CHR '' '', CHR 0x09, CHR 0x0A] = [] \<and>
   analyzeText [CHR '' '', CHR 0x09, CHR 0x0A] = []"
  using analyzeText_one_result_per_indicator [of "''Coup coup''"]
    analyzeText_one_result_per_indicator [of "[CHR '' '', CHR 0x09, CHR 0x0A]"]
    coup_trim blank_trim
  by blast

text \<open>
  C10 as stated (for every non-empty text) fails: a text of one space is not empty, and the
  list returned for it has no element.
\<close>

theorem analyzeText_blank_no_results:
  "'' '' \<noteq> '''' \<and> analyzeText '' '' = [] \<and> length (analyzeText '' '') \<noteq> 4"
  by (simp add: analyzeText_def trim_def isWhiteSpace_def)

subsection \<open>Claim C3\<close>

text \<open>
  C3, as amended: for every text and every indicator, \<open>matches\<close> holds every matched string
  of the indicator's keywords, each once under exact comparison: no two entries are the
  same string. (Entries that differ only in the case of letters are both kept.)
\<close>

theorem matches_distinct:
  "\<forall>r \<in> set (analyzeText text).
     distinct (matches r) \<and>
     set (matches r) = set (allMatches text (processedKeywords (indicator r)))"
  by (auto simp: analyzeText_def matches_analyzeIndicator indicator_analyzeIndicator
      distinct_newSet set_newSet)

theorem matches_distinct_witness:
  "distinct (matches (analyzeText ''Coup coup'' ! 0)) \<and>
   matches (analyzeText ''Coup coup'' ! 0) = [''Coup'', ''coup'']"
  using matches_distinct [of "''Coup coup''"] coup_first_mem coup_matches by blast

text \<open>
  C3 as stated (no two entries equal when lower-cased) fails: for the text \<open>Coup coup\<close> the
  matches of the first indicator are \<open>Coup\<close> and \<open>coup\<close>.
\<close>

theorem matches_not_distinct_ignoring_case:
  "\<not> distinct (map toLowerCase (matches (analyzeText ''Coup coup'' ! 0)))"
  by (simp add: coup_matches coup_lower)

subsection \<open>Claim C4\<close>

text \<open>
  C4, as amended: for every text and every indicator, the score is
  \<open>min(10, uniqueMatchCount * 2)\<close>, plus one (clamped to 10 again) exactly when
  \<open>uniqueMatchCount > 0\<close> and the sentiment of the whole text is below \<open>-0.2\<close>, where
  \<open>uniqueMatchCount\<close> is the number of matched strings that are distinct under exact
  comparison; the score is at most 10 (and, a natural number, at least 0).
\<close>

theorem score_formula:
  "\<forall>r \<in> set (analyzeText text).
     score r = claimedScore (card (set (allMatches text (processedKeywords (indicator r)))))
                 (analyzeSentiment text) \<and>
     score r \<le> 10"
  by (auto simp: analyzeText_def score_analyzeIndicator indicator_analyzeIndicator
      length_newSet scoreOf_claimedScore [symmetric] scoreOf_le)

theorem score_formula_witness:
  "score (analyzeText ''Coup coup'' ! 0) =
     claimedScore (card (set (allMatches ''Coup coup''
        (processedKeywords (indicator (analyzeText ''Coup coup'' ! 0))))))
       (analyzeSentiment ''Coup coup'') \<and>
   score (analyzeText ''Coup coup'' ! 0) = 4"
  using score_formula [of "''Coup coup''"] coup_first_mem coup_score by blast

text \<open>
  C4 as stated (the count taken without regard to case) fails: for the text \<open>Coup coup\<close>
  the first indicator has one match when case is ignored, which gives 2, and the score is 4.
\<close>

theorem score_not_case_insensitive_count:
  "score (analyzeText ''Coup coup'' ! 0) \<noteq>
     claimedScore (ciDistinctCount (matches (analyzeText ''Coup coup'' ! 0)))
       (analyzeSentiment ''Coup coup'')"
  by (simp add: coup_score coup_matches coup_sentiment coup_lower ciDistinctCount_def
      claimedScore_def f64_two_tenths_def)

section \<open>Properties of the training-example labeler\<close>

lemma isPrefix_iff: "isPrefix sub s \<longleftrightarrow> (\<exists>after. s = sub @ after)"
proof
  assume "isPrefix sub s"
  then have "s = sub @ drop (length sub) s"
    by (metis append_take_drop_id isPrefix.simps)
  then show "\<exists>after. s = sub @ after" ..
next
  assume "\<exists>after. s = sub @ after"
  then show "isPrefix sub s" by auto
qed

lemma str_includes_iff:
  "str_includes s sub \<longleftrightarrow> (\<exists>before after. s = before @ sub @ after)"
proof (induction s)
  case Nil
  then show ?case by auto
next
  case (Cons c cs)
  show ?case
  proof
    assume "str_includes (c # cs) sub"
    then consider "isPrefix sub (c # cs)" | "str_includes cs sub" by auto
    then show "\<exists>before after. c # cs = before @ sub @ after"
    proof cases
      case 1
      then obtain after where "c # cs = sub @ after" unfolding isPrefix_iff ..
      then have "c # cs = [] @ sub @ after" by simp
      then show ?thesis by blast
    next
      case 2
      with Cons.IH obtain before after where "cs = before @ sub @ after" by blast
      then have "c # cs = (c # before) @ sub @ after" by simp
      then show ?thesis by blast
    qed
  next
    assume "\<exists>before after. c # cs = before @ sub @ after"
    then obtain before after where eq: "c # cs = before @ sub @ after" by blast
    show "str_includes (c # cs) sub"
    proof (cases before)
      case Nil
      with eq have "isPrefix sub (c # cs)" unfolding isPrefix_iff by auto
      then show ?thesis by simp
    next
      case (Cons b bs)
      with eq have "cs = bs @ sub @ after" by simp
      with Cons.IH have "str_includes cs sub" by blast
      then show ?thesis by simp
    qed
  qed
qed

lemma scanKeywords_iff:
  "scanKeywords sentence kws \<longleftrightarrow>
     (\<exists>keyword \<in> set kws. str_includes (toLowerCase sentence) (toLowerCase keyword))"
  by (induction kws) auto

lemma scanKeywords_hasKeywordOf:
  "scanKeywords sentence (indicator_keywords ind) \<longleftrightarrow> hasKeywordOf sentence ind"
  by (simp add: scanKeywords_iff hasKeywordOf_def str_includes_iff)

lemma scanIndicators_4:
  "scanIndicators sentence 4 =
     (if hasKeywordOf sentence (INDICATORS ! 0) then Some 1
      else if hasKeywordOf sentence (INDICATORS ! 1) then Some 2
      else if hasKeywordOf sentence (INDICATORS ! 2) then Some 3
      else if hasKeywordOf sentence (INDICATORS ! 3) then Some 4
      else None)"
  by (simp add: eval_nat_numeral scanKeywords_hasKeywordOf Let_def)

lemma indicator_id_nth: "j < 4 \<Longrightarrow> indicator_id (INDICATORS ! j) = j + 1"
proof -
  assume "j < 4"
  then consider "j = 0" | "j = 1" | "j = 2" | "j = 3" by linarith
  then show ?thesis by cases (simp_all add: INDICATORS_def)
qed

lemma scanIndicators_first:
  assumes "j < 4" and "hasKeywordOf sentence (INDICATORS ! j)"
    and "\<forall>i<j. \<not> hasKeywordOf sentence (INDICATORS ! i)"
  shows "scanIndicators sentence 4 = Some (j + 1)"
proof -
  from assms(1) consider "j = 0" | "j = 1" | "j = 2" | "j = 3" by linarith
  then show ?thesis using assms(2,3) by cases (simp_all add: scanIndicators_4)
qed

lemma processParagraph_short:
  "length (trim p) \<le> 50 \<Longrightarrow> processParagraph coin k p = ([], k)"
  by (simp add: processParagraph_def)

lemma processParagraphs_skip:
  "length (trim p) \<le> 50 \<Longrightarrow>
   processParagraphs coin k (ps @ p # qs) = processParagraphs coin k (ps @ qs)"
  by (induction ps arbitrary: k) (simp_all add: processParagraph_short split: prod.splits)

lemma labelSentence_keyword:
  assumes "20 \<le> length (trim sentence)"
    and "j < 4"
    and "hasKeywordOf sentence (INDICATORS ! j)"
    and "\<forall>i<j. \<not> hasKeywordOf sentence (INDICATORS ! i)"
  shows "labelSentence coin k sentence =
    ([\<lparr>ex_text = trim sentence, label = JNumber (real (indicator_id (INDICATORS ! j)))\<rparr>], k)"
  using assms(1) scanIndicators_first [OF assms(2-4)] indicator_id_nth [OF assms(2)]
  by (simp add: labelSentence_def)

lemma fst_labelSentences_Cons:
  "fst (labelSentences coin k (s # ss)) =
     fst (labelSentence coin k s) @ fst (labelSentences coin (snd (labelSentence coin k s)) ss)"
  by (simp split: prod.splits)

lemma fst_processParagraphs_Cons:
  "fst (processParagraphs coin k (p # ps)) =
     fst (processParagraph coin k p) @
     fst (processParagraphs coin (snd (processParagraph coin k p)) ps)"
  by (simp split: prod.splits)

lemma labelSentences_mem:
  assumes "s \<in> set ss" and "\<And>k. labelSentence coin k s = ([e], k)"
  shows "e \<in> set (fst (labelSentences coin k ss))"
  using assms(1)
proof (induction ss arbitrary: k)
  case Nil
  then show ?case by simp
next
  case (Cons a ss)
  show ?case
  proof (cases "a = s")
    case True
    then show ?thesis
      by (simp add: fst_labelSentences_Cons assms(2) del: labelSentences.simps)
  next
    case False
    with Cons.prems have "s \<in> set ss" by simp
    from Cons.IH [OF this] show ?thesis
      by (simp add: fst_labelSentences_Cons del: labelSentences.simps)
  qed
qed

lemma processParagraphs_mem:
  assumes "p \<in> set ps" and "\<And>k. e \<in> set (fst (processParagraph coin k p))"
  shows "e \<in> set (fst (processParagraphs coin k ps))"
  using assms(1)
proof (induction ps arbitrary: k)
  case Nil
  then show ?case by simp
next
  case (Cons a ps)
  show ?case
  proof (cases "a = p")
    case True
    with assms(2) [of k] show ?thesis
      by (simp add: fst_processParagraphs_Cons del: processParagraphs.simps)
  next
    case False
    with Cons.prems have "p \<in> set ps" by simp
    from Cons.IH [OF this] show ?thesis
      by (simp add: fst_processParagraphs_Cons del: processParagraphs.simps)
  qed
qed

lemma extractTrainingData_mem:
  assumes "trim extractedText \<noteq> []"
    and "p \<in> set (splitParagraphs [] extractedText)" and "50 < length (trim p)"
    and "s \<in> set (matchSentences p)"
    and "\<And>k. labelSentence coin k s = ([e], k)"
  shows "\<exists>examples. extractTrainingData extractedText coin = Inr examples \<and> e \<in> set examples"
proof -
  have "\<And>k. e \<in> set (fst (processParagraph coin k p))"
    using assms(3) labelSentences_mem [OF assms(4,5)] by (simp add: processParagraph_def)
  then have "e \<in> set (fst (processParagraphs coin 0 (splitParagraphs [] extractedText)))"
    by (rule processParagraphs_mem [OF assms(2)])
  with assms(1) show ?thesis by (auto simp: extractTrainingData_def trim_def)
qed

subsection \<open>Claim C6\<close>

text \<open>
  C6: a sentence the labeler retains (its trimmed length is at least 20) that contains,
  case-insensitively, a keyword of some indicator is labeled with the id of the first of the
  four indicators, in the order 1 to 4, that has a keyword the sentence contains. The scan
  stops there: whatever the later indicators contain, the one example pushed for the
  sentence carries that id, and no random draw is made. That example is among the examples
  \<open>extractTrainingData\<close> returns for every text in which the sentence stands in a paragraph
  that the labeler processes (one that passes the paragraph filter of C9).
\<close>

theorem labelSentence_first_indicator:
  assumes "20 \<le> length (trim sentence)"
    and "j < 4"
    and "hasKeywordOf sentence (INDICATORS ! j)"
    and "\<forall>i<j. \<not> hasKeywordOf sentence (INDICATORS ! i)"
  shows "labelSentence coin k sentence =
      ([\<lparr>ex_text = trim sentence, label = JNumber (real (indicator_id (INDICATORS ! j)))\<rparr>], k) \<and>
    (\<forall>extractedText p.
       trim extractedText \<noteq> [] \<and> p \<in> set (splitParagraphs [] extractedText) \<and>
       50 < length (trim p) \<and> sentence \<in> set (matchSentences p) \<longrightarrow>
       (\<exists>examples. extractTrainingData extractedText coin = Inr examples \<and>
          \<lparr>ex_text = trim sentence, label = JNumber (real (indicator_id (INDICATORS ! j)))\<rparr>
            \<in> set examples))"
proof (intro conjI allI impI)
  show "labelSentence coin k sentence =
      ([\<lparr>ex_text = trim sentence, label = JNumber (real (indicator_id (INDICATORS ! j)))\<rparr>], k)"
    using assms by (rule labelSentence_keyword)
next
  fix extractedText p
  assume h: "trim extractedText \<noteq> [] \<and> p \<in> set (splitParagraphs [] extractedText) \<and>
       50 < length (trim p) \<and> sentence \<in> set (matchSentences p)"
  have one: "\<And>k. labelSentence coin k sentence =
      ([\<lparr>ex_text = trim sentence, label = JNumber (real (indicator_id (INDICATORS ! j)))\<rparr>], k)"
    using assms by (rule labelSentence_keyword)
  from h show "\<exists>examples. extractTrainingData extractedText coin = Inr examples \<and>
          \<lparr>ex_text = trim sentence, label = JNumber (real (indicator_id (INDICATORS ! j)))\<rparr>
            \<in> set examples"
    using extractTrainingData_mem [OF _ _ _ _ one] by blast
qed

theorem labelSentence_first_indicator_witness:
  "20 \<le> length (trim ''Our enemy is within the gates.'') \<and>
   hasKeywordOf ''Our enemy is within the gates.'' (INDICATORS ! 1) \<and>
   \<not> hasKeywordOf ''Our enemy is within the gates.'' (INDICATORS ! 0) \<and>
   labelSentence (\<lambda>k. True) 0 ''Our enemy is within the gates.'' =
     ([\<lparr>ex_text = ''Our enemy is within the gates.'', label = JNumber 2\<rparr>], 0) \<and>
   50 < length (trim ''Our enemy is within the gates. They will crush every protest.'') \<and>
   (\<exists>examples.
      extractTrainingData ''Our enemy is within the gates. They will crush every protest.''
        (\<lambda>k. True) = Inr examples \<and>
      \<lparr>ex_text = ''Our enemy is within the gates.'', label = JNumber 2\<rparr> \<in> set examples)"
proof -
  let ?s = "''Our enemy is within the gates.''"
  let ?t = "''Our enemy is within the gates. They will crush every protest.''"
  have len: "20 \<le> length (trim ?s)" by code_simp
  have tr: "trim ?s = ?s" by code_simp
  have "scanKeywords ?s (indicator_keywords (INDICATORS ! 1))" by code_simp
  then have h1: "hasKeywordOf ?s (INDICATORS ! 1)" by (simp add: scanKeywords_hasKeywordOf)
  have "\<not> scanKeywords ?s (indicator_keywords (INDICATORS ! 0))" by code_simp
  then have h0: "\<not> hasKeywordOf ?s (INDICATORS ! 0)" by (simp add: scanKeywords_hasKeywordOf)
  then have before: "\<forall>i<1. \<not> hasKeywordOf ?s (INDICATORS ! i)" by simp
  have lt: "(1::nat) < 4" by simp
  have id1: "indicator_id (INDICATORS ! 1) = 2" by (simp add: INDICATORS_def)
  have ne: "trim ?t \<noteq> []" by code_simp
  have long: "50 < length (trim ?t)" by code_simp
  have par: "?t \<in> set (splitParagraphs [] ?t)" by code_simp
  have sen: "?s \<in> set (matchSentences ?t)" by code_simp
  have r2: "real 2 = 2" by simp
  note inst = labelSentence_first_indicator
    [OF len lt h1 before, of "\<lambda>k. True" 0, unfolded tr id1 r2]
  from inst have lab: "labelSentence (\<lambda>k. True) 0 ?s = ([\<lparr>ex_text = ?s, label = JNumber 2\<rparr>], 0)"
    by blast
  from inst ne long par sen
  have "\<exists>examples. extractTrainingData ?t (\<lambda>k. True) = Inr examples \<and>
      \<lparr>ex_text = ?s, label = JNumber 2\<rparr> \<in> set examples"
    by blast
  with len h1 h0 lab long show ?thesis by blast
qed

subsection \<open>Claim C9\<close>

text \<open>
  C9: a paragraph whose trimmed length is at most 50 is skipped whole. It pushes no example
  and makes no random draw, so the examples extracted from a list of paragraphs are those
  extracted from the list without it, also when one of its sentences is 20 or more
  characters long and contains keywords.
\<close>

theorem short_paragraph_skipped:
  assumes "length (trim p) \<le> 50"
  shows "processParagraph coin k p = ([], k) \<and>
    processParagraphs coin k (ps @ p # qs) = processParagraphs coin k (ps @ qs)"
  using assms by (simp add: processParagraph_short processParagraphs_skip)

theorem short_paragraph_skipped_witness:
  "length (trim ''The military coup happened today.'') \<le> 50 \<and>
   matchSentences ''The military coup happened today.'' = [''The military coup happened today.''] \<and>
   labelSentence (\<lambda>k. True) 0 ''The military coup happened today.'' =
     ([\<lparr>ex_text = ''The military coup happened today.'', label = JNumber 1\<rparr>], 0) \<and>
   processParagraph (\<lambda>k. True) 0 ''The military coup happened today.'' = ([], 0) \<and>
   extractTrainingData ''The military coup happened today.'' (\<lambda>k. True) = Inr []"
proof -
  let ?p = "''The military coup happened today.''"
  have len: "length (trim ?p) \<le> 50" by code_simp
  have ms: "matchSentences ?p = [?p]" by code_simp
  have lab: "labelSentence (\<lambda>k. True) 0 ?p = ([\<lparr>ex_text = ?p, label = JNumber 1\<rparr>], 0)"
    by code_simp
  have sp: "splitParagraphs [] ?p = [?p]" by code_simp
  have ne: "trim ?p \<noteq> []" by code_simp
  from short_paragraph_skipped [OF len, of "\<lambda>k. True" 0 "[]" "[]"]
  have skip: "processParagraph (\<lambda>k. True) 0 ?p = ([], 0)"
    and all: "processParagraphs (\<lambda>k. True) 0 [?p] = ([], 0)" by simp_all
  from ne all have "extractTrainingData ?p (\<lambda>k. True) = Inr []"
    unfolding extractTrainingData_def sp by simp
  with len ms lab skip show ?thesis by blast
qed

section \<open>Properties of the vectorizer\<close>

lemma length_fillVector: "length (fillVector v i es) = length v"
  by (induction v i es rule: fillVector.induct) simp_all

lemma length_textToVector: "length (textToVector text) = 50"
  by (simp add: textToVector_def Let_def length_fillVector maxSequenceLength_def)

text \<open>
  Apart from the word \<open>constructor\<close>, the vectorizer does what C7 says: the words are in
  lower case, so no other inherited property is read as a count.
\<close>

lemma lowerChar_not_upper: "\<not> isUpperAscii (lowerChar c)"
  by (auto simp: lowerChar_def isUpperAscii_def Let_def)

lemma toLowerCase_not_upper: "c \<in> set (toLowerCase text) \<Longrightarrow> \<not> isUpperAscii c"
  by (auto simp: toLowerCase_def lowerChar_not_upper)

lemma set_splitRuns:
  "w \<in> set (splitRuns sep cur s) \<Longrightarrow> set w \<subseteq> set cur \<union> set s"
proof (induction sep cur s rule: splitRuns.induct)
  case (1 sep cur)
  then show ?case by simp
next
  case (2 sep cur c cs)
  show ?case
  proof (cases "sep c")
    case True
    with "2.prems" consider "w = cur" | "w \<in> set (splitRuns sep [] (dropWhile sep cs))" by auto
    then show ?thesis
    proof cases
      case 1
      then show ?thesis by auto
    next
      case 2
      from "2.IH"(1) [OF True this] have "set w \<subseteq> set (dropWhile sep cs)" by simp
      also have "\<dots> \<subseteq> set cs" by (auto dest: set_dropWhileD)
      finally show ?thesis by auto
    qed
  next
    case False
    with "2.prems" have "w \<in> set (splitRuns sep (cur @ [c]) cs)" by simp
    from "2.IH"(2) [OF False this] show ?thesis by auto
  qed
qed

lemma vectorWords_not_upper:
  assumes "w \<in> set (vectorWords text)" and "c \<in> set w"
  shows "\<not> isUpperAscii c"
proof -
  from set_splitRuns [OF assms(1) [unfolded vectorWords_def]] assms(2)
  have "c \<in> set (toLowerCase text)" by auto
  then show ?thesis by (rule toLowerCase_not_upper)
qed

lemma objectPrototypeGet_lower:
  assumes "\<forall>c \<in> set w. \<not> isUpperAscii c" and "w \<noteq> ''constructor''" and "w \<noteq> ''__proto__''"
  shows "objectPrototypeGet w = JUndefined"
proof -
  have "w \<notin> set [''hasOwnProperty'', ''isPrototypeOf'', ''propertyIsEnumerable'',
                ''toLocaleString'', ''toString'', ''valueOf'', ''__defineGetter__'',
                ''__defineSetter__'', ''__lookupGetter__'', ''__lookupSetter__'']"
    using assms(1) by (auto simp: isUpperAscii_def)
  with assms(2,3) show ?thesis by (simp add: objectPrototypeGet_def)
qed

lemma countsOnly_countWord:
  assumes "countsOnly obj" and "\<forall>c \<in> set w. \<not> isUpperAscii c" and "w \<noteq> ''constructor''"
  shows "countsOnly (countWord obj w)"
proof (cases "2 < length w \<and> w \<noteq> ''__proto__''")
  case False
  with assms(1) show ?thesis by (auto simp: countWord_def setProperty_def)
next
  case True
  have "\<exists>n::nat. 0 < n \<and> orZeroPlusOne (getProperty obj w) = JNumber (real n)"
  proof (cases "map_of obj w")
    case None
    with objectPrototypeGet_lower [OF assms(2,3)] True
    have "orZeroPlusOne (getProperty obj w) = JNumber (real 1)"
      by (simp add: getProperty_def orZeroPlusOne_def)
    then show ?thesis by blast
  next
    case (Some v)
    then have "(w, v) \<in> set obj" by (rule map_of_SomeD)
    with assms(1) obtain n :: nat where n: "0 < n" "v = JNumber (real n)"
      by (auto simp: countsOnly_def)
    with Some have "orZeroPlusOne (getProperty obj w) = JNumber (real (Suc n))"
      by (simp add: getProperty_def orZeroPlusOne_def)
    then show ?thesis by blast
  qed
  then obtain n :: nat where n: "0 < n" "orZeroPlusOne (getProperty obj w) = JNumber (real n)"
    by blast
  with assms(1) True show ?thesis
    by (auto simp: countWord_def setProperty_def countsOnly_def split: if_splits)
qed

lemma countsOnly_foldl:
  assumes "countsOnly obj"
    and "\<forall>w \<in> set ws. (\<forall>c \<in> set w. \<not> isUpperAscii c) \<and> w \<noteq> ''constructor''"
  shows "countsOnly (foldl countWord obj ws)"
  using assms by (induction ws arbitrary: obj) (simp_all add: countsOnly_countWord)

lemma set_objectEntries: "set (objectEntries obj) = set obj"
  by (auto simp: objectEntries_def)

lemma fillVector_counts:
  assumes "\<forall>v \<in> set vector. isCount v" and "\<forall>(k, v) \<in> set es. isCount v"
  shows "\<forall>v \<in> set (fillVector vector i es). isCount v"
  using assms
proof (induction vector i es rule: fillVector.induct)
  case (1 vector index)
  then show ?case by simp
next
  case (2 vector index word count rest)
  show ?case
  proof (cases "index < maxSequenceLength")
    case True
    have "\<forall>v \<in> set (vector[index := count]). isCount v"
      using "2.prems" set_update_subset_insert [of vector index count] by auto
    from "2.IH" [OF True this] "2.prems"(2) True show ?thesis by simp
  next
    case False
    with "2.prems"(1) show ?thesis by simp
  qed
qed

lemma textToVector_counts:
  assumes "''constructor'' \<notin> set (vectorWords text)"
  shows "length (textToVector text) = 50 \<and> (\<forall>v \<in> set (textToVector text). isCount v)"
proof -
  have "countsOnly []" by (simp add: countsOnly_def)
  moreover have "\<forall>w \<in> set (vectorWords text).
      (\<forall>c \<in> set w. \<not> isUpperAscii c) \<and> w \<noteq> ''constructor''"
    using assms vectorWords_not_upper by blast
  ultimately have "countsOnly (foldl countWord [] (vectorWords text))"
    by (rule countsOnly_foldl)
  then have es: "\<forall>(k, v) \<in> set (objectEntries (foldl countWord [] (vectorWords text))). isCount v"
    by (auto simp: set_objectEntries countsOnly_def isCount_def)
  have zeros: "\<forall>v \<in> set (replicate maxSequenceLength (JNumber 0)). isCount v"
    by (auto simp: isCount_def intro: exI [of _ 0])
  from fillVector_counts [OF zeros es] show ?thesis
    by (simp add: textToVector_def Let_def length_textToVector [unfolded textToVector_def Let_def])
qed

subsection \<open>Claim C7\<close>

text \<open>
  C7 says that the vector of every text has length 50 and that each of its entries is a
  non-negative integer. The length is 50 for every text (\<open>length_textToVector\<close>), and
  the entries are non-negative integers for every text without the word \<open>constructor\<close>
  (\<open>textToVector_counts\<close>). With that word the entries are not all numbers:
  \<open>wordCounts\<close> is a plain object, so for the word \<open>constructor\<close> the read
  \<open>wordCounts[word]\<close> finds the function \<open>Object\<close> that every object inherits,
  \<open>(wordCounts[word] || 0) + 1\<close> is a string, and that string is the first entry of the
  vector of the text \<open>constructor\<close>.
\<close>

theorem textToVector_constructor:
  "textToVector ''constructor'' =
     JString ''function Object() { [native code] }1'' # replicate 49 (JNumber 0)"
  by code_simp

section \<open>Properties of the classifier\<close>


lemma unavailable_with_nine:
  "snd (addTrainingData nineExamples (newClassifier tfUnavailable)) =
     \<lparr>model = None, trainingData = map the nineExamples, isModelReady = False\<rparr>"
  by (simp add: addTrainingData_def Let_def nineExamples_def newClassifier_def buildModel_def
      buildSimpleModel_def tfUnavailable_def validItem_def typeofNumber_def inLabelRange_def)

lemma uniform_with_nine:
  "snd (addTrainingData nineExamples (newClassifier tfUniform)) =
     \<lparr>model = Some (), trainingData = map the nineExamples, isModelReady = True\<rparr>"
  by (simp add: addTrainingData_def Let_def nineExamples_def newClassifier_def buildModel_def
      tfUniform_def validItem_def typeofNumber_def inLabelRange_def)

subsection \<open>Claim C8\<close>



subsection \<open>Claim C5\<close>

lemma fitModel_not_size_error:
  "fst (fitModel tf epochs batchSize c) \<noteq>
     Inl (Error ''Not enough training data. Need at least 10 examples.'')"
  by (simp add: fitModel_def Let_def split: sum.splits option.splits)

lemma buildModel_cases:
  "(tf_buildModel tf = Inr m \<longrightarrow> buildModel tf c = c\<lparr>model := Some m, isModelReady := True\<rparr>) \<and>
   (tf_buildModel tf = Inl e \<and> tf_buildSimpleModel tf = Inr m \<longrightarrow>
      buildModel tf c = c\<lparr>model := Some m, isModelReady := True\<rparr>) \<and>
   (tf_buildModel tf = Inl e \<and> tf_buildSimpleModel tf = Inl e1 \<longrightarrow>
      buildModel tf c = c\<lparr>model := None, isModelReady := False\<rparr>)"
  by (simp add: buildModel_def buildSimpleModel_def)

text \<open>
  C5, as amended. \<open>train\<close> first makes sure that a model is there: when none is there
  and ready it builds one (the main architecture, or else the fallback), and when none can
  be built it fails with \<open>Model not initialized. Please rebuild the model.\<close> whatever
  the size of the training set. With a model, the one that was ready or the one just
  built: if the training set has fewer than 10 examples, \<open>train\<close> fails with \<open>Not
  enough training data. Need at least 10 examples.\<close>, and the classifier is left as it
  was when its model was ready (when it was not, the model just built is the only change);
  with 10 or more examples \<open>train\<close> goes past the size check into the fit, and whatever
  it then returns or throws is not that error.
\<close>

theorem train_checks:
  "(model c \<noteq> None \<and> isModelReady c \<and> length (trainingData c) < 10 \<longrightarrow>
      train tf epochs batchSize c =
        (Inl (Error ''Not enough training data. Need at least 10 examples.''), c)) \<and>
   (model c \<noteq> None \<and> isModelReady c \<and> 10 \<le> length (trainingData c) \<longrightarrow>
      train tf epochs batchSize c = fitModel tf epochs batchSize c \<and>
      fst (train tf epochs batchSize c) \<noteq>
        Inl (Error ''Not enough training data. Need at least 10 examples.'')) \<and>
   ((model c = None \<or> \<not> isModelReady c) \<and> model (buildModel tf c) \<noteq> None \<and>
    length (trainingData c) < 10 \<longrightarrow>
      train tf epochs batchSize c =
        (Inl (Error ''Not enough training data. Need at least 10 examples.''), buildModel tf c)) \<and>
   ((model c = None \<or> \<not> isModelReady c) \<and> model (buildModel tf c) \<noteq> None \<and>
    10 \<le> length (trainingData c) \<longrightarrow>
      train tf epochs batchSize c = fitModel tf epochs batchSize (buildModel tf c) \<and>
      fst (train tf epochs batchSize c) \<noteq>
        Inl (Error ''Not enough training data. Need at least 10 examples.'')) \<and>
   ((model c = None \<or> \<not> isModelReady c) \<and> model (buildModel tf c) = None \<longrightarrow>
      train tf epochs batchSize c =
        (Inl (Error ''Model not initialized. Please rebuild the model.''), buildModel tf c)) \<and>
   (tf_buildModel tf = Inr m \<longrightarrow> buildModel tf c = c\<lparr>model := Some m, isModelReady := True\<rparr>) \<and>
   (tf_buildModel tf = Inl e \<and> tf_buildSimpleModel tf = Inr m \<longrightarrow>
      buildModel tf c = c\<lparr>model := Some m, isModelReady := True\<rparr>) \<and>
   (tf_buildModel tf = Inl e \<and> tf_buildSimpleModel tf = Inl e1 \<longrightarrow>
      buildModel tf c = c\<lparr>model := None, isModelReady := False\<rparr>)"
proof -
  have td: "trainingData (buildModel tf c) = trainingData c"
    by (simp add: buildModel_def buildSimpleModel_def split: sum.splits)
  have "(model c \<noteq> None \<and> isModelReady c \<and> length (trainingData c) < 10 \<longrightarrow>
      train tf epochs batchSize c =
        (Inl (Error ''Not enough training data. Need at least 10 examples.''), c))"
    by (auto simp: train_def Let_def notEnoughDataMessage_def)
  moreover have "(model c \<noteq> None \<and> isModelReady c \<and> 10 \<le> length (trainingData c) \<longrightarrow>
      train tf epochs batchSize c = fitModel tf epochs batchSize c \<and>
      fst (train tf epochs batchSize c) \<noteq>
        Inl (Error ''Not enough training data. Need at least 10 examples.''))"
    using fitModel_not_size_error [of tf epochs batchSize c] by (auto simp: train_def Let_def)
  moreover have "((model c = None \<or> \<not> isModelReady c) \<and> model (buildModel tf c) \<noteq> None \<and>
    length (trainingData c) < 10 \<longrightarrow>
      train tf epochs batchSize c =
        (Inl (Error ''Not enough training data. Need at least 10 examples.''), buildModel tf c))"
    by (auto simp: train_def Let_def td notEnoughDataMessage_def)
  moreover have "((model c = None \<or> \<not> isModelReady c) \<and> model (buildModel tf c) \<noteq> None \<and>
    10 \<le> length (trainingData c) \<longrightarrow>
      train tf epochs batchSize c = fitModel tf epochs batchSize (buildModel tf c) \<and>
      fst (train tf epochs batchSize c) \<noteq>
        Inl (Error ''Not enough training data. Need at least 10 examples.''))"
    using fitModel_not_size_error [of tf epochs batchSize "buildModel tf c"]
    by (auto simp: train_def Let_def td)
  moreover have "((model c = None \<or> \<not> isModelReady c) \<and> model (buildModel tf c) = None \<longrightarrow>
      train tf epochs batchSize c =
        (Inl (Error ''Model not initialized. Please rebuild the model.''), buildModel tf c))"
    by (auto simp: train_def Let_def notInitializedMessage_def)
  ultimately show ?thesis using buildModel_cases [of tf m c e e1] by blast
qed

theorem train_checks_witness:
  "train tfUniform 3 8 (snd (addTrainingData nineExamples (newClassifier tfUniform))) =
     (Inl (Error ''Not enough training data. Need at least 10 examples.''),
      snd (addTrainingData nineExamples (newClassifier tfUniform))) \<and>
   train tfUniform 3 8
       (snd (addTrainingData [Some \<lparr>ex_text = ''x'', label = JNumber 0\<rparr>]
          (snd (addTrainingData nineExamples (newClassifier tfUniform))))) =
     (Inr (), \<lparr>model = Some (),
               trainingData = map the nineExamples @ [\<lparr>ex_text = ''x'', label = JNumber 0\<rparr>],
               isModelReady = True\<rparr>) \<and>
   train tfUniform 3 8 (snd (addTrainingData nineExamples (newClassifier tfUnavailable))) =
     (Inl (Error ''Not enough training data. Need at least 10 examples.''),
      \<lparr>model = Some (), trainingData = map the nineExamples, isModelReady = True\<rparr>) \<and>
   train (tfWith (Inl NotAnError) (Inr ()) (Inl NotAnError)) 3 8
       (snd (addTrainingData nineExamples (newClassifier tfUnavailable))) =
     (Inl (Error ''Not enough training data. Need at least 10 examples.''),
      \<lparr>model = Some (), trainingData = map the nineExamples, isModelReady = True\<rparr>) \<and>
   train tfUniform 3 8
       (snd (addTrainingData [Some \<lparr>ex_text = ''x'', label = JNumber 0\<rparr>]
          (snd (addTrainingData nineExamples (newClassifier tfUnavailable))))) =
     (Inr (), \<lparr>model = Some (),
               trainingData = map the nineExamples @ [\<lparr>ex_text = ''x'', label = JNumber 0\<rparr>],
               isModelReady = True\<rparr>) \<and>
   train tfUnavailable 3 8 (newClassifier tfUnavailable) =
     (Inl (Error ''Model not initialized. Please rebuild the model.''),
      newClassifier tfUnavailable)"
proof -
  let ?x = "\<lparr>ex_text = ''x'', label = JNumber 0\<rparr>"
  let ?c9 = "\<lparr>model = Some (), trainingData = map the nineExamples, isModelReady = True\<rparr>"
  let ?c10 = "\<lparr>model = Some (), trainingData = map the nineExamples @ [?x],
               isModelReady = True\<rparr>"
  let ?n9 = "\<lparr>model = None :: unit option, trainingData = map the nineExamples,
              isModelReady = False\<rparr>"
  let ?n10 = "\<lparr>model = None :: unit option, trainingData = map the nineExamples @ [?x],
               isModelReady = False\<rparr>"
  let ?c0 = "\<lparr>model = None, trainingData = [], isModelReady = False\<rparr> :: unit Classifier"
  let ?fb = "tfWith (Inl NotAnError) (Inr ()) (Inl NotAnError)"
  have ten: "snd (addTrainingData [Some ?x] ?c9) = ?c10"
    by (simp add: addTrainingData_def Let_def validItem_def typeofNumber_def inLabelRange_def)
  have nten: "snd (addTrainingData [Some ?x] ?n9) = ?n10"
    by (simp add: addTrainingData_def Let_def validItem_def typeofNumber_def inLabelRange_def)
  have c0: "newClassifier tfUnavailable = ?c0"
    by (simp add: newClassifier_def buildModel_def buildSimpleModel_def tfUnavailable_def)
  have len9: "length (map the nineExamples) = 9" by (simp add: nineExamples_def)
  have bu: "tf_buildModel tfUniform = Inr ()" by (simp add: tfUniform_def)
  have bf: "tf_buildModel ?fb = Inl NotAnError \<and> tf_buildSimpleModel ?fb = Inr ()"
    by (simp add: tfWith_def)
  have bn: "tf_buildModel tfUnavailable = Inl (Error ''No backend found in registry.'') \<and>
      tf_buildSimpleModel tfUnavailable = Inl (Error ''No backend found in registry.'')"
    by (simp add: tfUnavailable_def)
  have "train tfUniform 3 8 ?c9 =
      (Inl (Error ''Not enough training data. Need at least 10 examples.''), ?c9)"
    using train_checks [of ?c9 tfUniform 3 8] len9 by simp
  moreover have "train tfUniform 3 8 ?c10 = (Inr (), ?c10)"
    using train_checks [of ?c10 tfUniform 3 8] len9
    by (simp add: fitModel_def Let_def tfUniform_def)
  moreover have "train tfUniform 3 8 ?n9 =
      (Inl (Error ''Not enough training data. Need at least 10 examples.''), ?c9)"
    using train_checks [of ?n9 tfUniform 3 8 "()"] len9 bu by simp
  moreover have "train ?fb 3 8 ?n9 =
      (Inl (Error ''Not enough training data. Need at least 10 examples.''), ?c9)"
    using train_checks [of ?n9 ?fb 3 8 "()" NotAnError] len9 bf by simp
  moreover have "train tfUniform 3 8 ?n10 = (Inr (), ?c10)"
    using train_checks [of ?n10 tfUniform 3 8 "()"] len9 bu
    by (simp add: fitModel_def Let_def tfUniform_def)
  moreover have "train tfUnavailable 3 8 ?c0 =
      (Inl (Error ''Model not initialized. Please rebuild the model.''), ?c0)"
    using train_checks [of ?c0 tfUnavailable 3 8 _
        "Error ''No backend found in registry.''" "Error ''No backend found in registry.''"] bn
    by simp
  ultimately show ?thesis
    unfolding uniform_with_nine unavailable_with_nine
    unfolding ten nten
    unfolding c0
    by blast
qed

text \<open>
  C5 as stated fails for a classifier without a model: where TensorFlow.js can build
  nothing, the classifier has no model after its constructor, and with 9 examples in the
  training set \<open>train\<close> fails with \<open>Model not initialized. Please rebuild the model.\<close>, not
  with the error about the size.
\<close>

theorem train_without_model_other_error:
  "getTrainingDataSize (snd (addTrainingData nineExamples (newClassifier tfUnavailable))) = 9 \<and>
   fst (train tfUnavailable 3 8 (snd (addTrainingData nineExamples (newClassifier tfUnavailable)))) =
     Inl (Error ''Model not initialized. Please rebuild the model.'') \<and>
   fst (train tfUnavailable 3 8 (snd (addTrainingData nineExamples (newClassifier tfUnavailable)))) \<noteq>
     Inl (Error ''Not enough training data. Need at least 10 examples.'')"
  unfolding unavailable_with_nine
  by (simp add: getTrainingDataSize_def train_def Let_def buildModel_def buildSimpleModel_def
      tfUnavailable_def nineExamples_def notInitializedMessage_def)

subsection \<open>Claim C1\<close>



















end
